theory Spec2Isabelle
  imports Main "HOL-Library.Word" "HOL-Library.Sublist"
begin

section \<open>Python values\<close>

text \<open>
  Events arrive as JSON and are handled as Python values. A dict is an association
  list in insertion order (the order \<open>json.dumps\<close> and \<open>items()\<close> see); looking a
  key up takes its first binding. Floats are left out: no claim reads one.
\<close>

datatype pyval =
    PNone
  | PBool bool
  | PInt int
  | PStr string
  | PList "pyval list"
  | PDict "(string \<times> pyval) list"

type_synonym pydict = "(string \<times> pyval) list"

datatype error =
    AttributeError
  | TypeError
  | KeyError
  | UnicodeDecodeError
  | JSONDecodeError
  | StoreUnavailable
  | WriteFailed
  | HTTPException

text \<open>\<open>d.get(k, default)\<close> on a dict.\<close>

definition dget :: "pydict \<Rightarrow> string \<Rightarrow> pyval \<Rightarrow> pyval" where
  "dget d k dflt = (case map_of d k of Some v \<Rightarrow> v | None \<Rightarrow> dflt)"

text \<open>\<open>k in d\<close> on a dict.\<close>

definition has_key :: "pydict \<Rightarrow> string \<Rightarrow> bool" where
  "has_key d k = (map_of d k \<noteq> None)"

text \<open>\<open>d[k] = v\<close>: an existing key keeps its place, a new key goes last.\<close>

fun dset :: "pydict \<Rightarrow> string \<Rightarrow> pyval \<Rightarrow> pydict" where
  "dset [] k v = [(k, v)]"
| "dset ((k', v') # d) k v = (if k' = k then (k, v) # d else (k', v') # dset d k v)"

section \<open>Logging\<close>

text \<open>
  The log is the list of records written, oldest first. A record keeps the level and
  the fixed part of the message; the interpolated details are dropped. Debug records
  are not kept.
\<close>

datatype level = INFO | WARNING | ERROR

type_synonym log_entry = "level \<times> string"

section \<open>Schema mapping (src/schemas/ocsf\_schema.py)\<close>

text \<open>
  \<open>OCSFSchema._map_syslog_severity\<close>: a lookup in a dict keyed by the integers 0 to 7,
  default 5. Python's \<open>True\<close> and \<open>False\<close> hash and compare as 1 and 0; a list or a
  dict is unhashable and the lookup raises \<open>TypeError\<close>.
\<close>

definition syslog_to_ocsf :: "(int \<times> int) list" where
  "syslog_to_ocsf =
     [(0, 10), (1, 9), (2, 8), (3, 7), (4, 6), (5, 5), (6, 4), (7, 3)]"

definition map_syslog_severity :: "pyval \<Rightarrow> error + pyval" where
  "map_syslog_severity severity =
     (case severity of
        PInt n \<Rightarrow> Inr (case map_of syslog_to_ocsf n of Some v \<Rightarrow> PInt v | None \<Rightarrow> PInt 5)
      | PBool b \<Rightarrow>
          Inr (case map_of syslog_to_ocsf (if b then 1 else 0) of
                 Some v \<Rightarrow> PInt v | None \<Rightarrow> PInt 5)
      | PNone \<Rightarrow> Inr (PInt 5)
      | PStr s \<Rightarrow> Inr (PInt 5)
      | PList xs \<Rightarrow> Inl TypeError
      | PDict d \<Rightarrow> Inl TypeError)"

text \<open>
  The three mappers. \<open>ver\<close> is \<open>self.schema_version\<close>, read from the settings.
  \<open>event.get\<close> on a value that is not a dict raises \<open>AttributeError\<close>.
\<close>

definition map_syslog_to_ocsf :: "pyval \<Rightarrow> pyval \<Rightarrow> error + pyval" where
  "map_syslog_to_ocsf ver event =
     (case event of
        PDict d \<Rightarrow>
          (case map_syslog_severity (dget d ''severity'' (PInt 0)) of
             Inl e \<Rightarrow> Inl e
           | Inr sev \<Rightarrow>
               Inr (PDict
                 [(''class_uid'', PStr ''0001''),
                  (''category_uid'', PStr ''0002''),
                  (''time'', dget d ''timestamp'' PNone),
                  (''severity'', sev),
                  (''message'', dget d ''message'' (PStr '''')),
                  (''metadata'', PDict
                     [(''version'', ver),
                      (''product'', PDict
                         [(''name'', PStr ''Syslog''),
                          (''vendor_name'', dget d ''hostname'' (PStr ''Unknown''))])])]))
      | _ \<Rightarrow> Inl AttributeError)"

definition map_cef_to_ocsf :: "pyval \<Rightarrow> pyval \<Rightarrow> error + pyval" where
  "map_cef_to_ocsf ver event =
     (case event of
        PDict d \<Rightarrow>
          Inr (PDict
            [(''class_uid'', PStr ''0001''),
             (''category_uid'', PStr ''0002''),
             (''time'', dget d ''deviceReceiptTime'' PNone),
             (''severity'', dget d ''severity'' (PInt 0)),
             (''message'', dget d ''message'' (PStr '''')),
             (''metadata'', PDict
                [(''version'', ver),
                 (''product'', PDict
                    [(''name'', dget d ''deviceProduct'' (PStr ''Unknown'')),
                     (''vendor_name'', dget d ''deviceVendor'' (PStr ''Unknown''))])])])
      | _ \<Rightarrow> Inl AttributeError)"

definition map_leef_to_ocsf :: "pyval \<Rightarrow> pyval \<Rightarrow> error + pyval" where
  "map_leef_to_ocsf ver event =
     (case event of
        PDict d \<Rightarrow>
          Inr (PDict
            [(''class_uid'', PStr ''0001''),
             (''category_uid'', PStr ''0002''),
             (''time'', dget d ''devtime'' PNone),
             (''severity'', dget d ''severity'' (PInt 0)),
             (''message'', dget d ''message'' (PStr '''')),
             (''metadata'', PDict
                [(''version'', ver),
                 (''product'', PDict
                    [(''name'', dget d ''devname'' (PStr ''Unknown'')),
                     (''vendor_name'', dget d ''devtype'' (PStr ''Unknown''))])])])
      | _ \<Rightarrow> Inl AttributeError)"

text \<open>
  \<open>OCSFSchema.map_to_ocsf\<close>: the dispatch on the declared format. The result is the
  log records written and the mapped event, or the exception raised.
\<close>

definition map_to_ocsf :: "pyval \<Rightarrow> pyval \<Rightarrow> pyval \<Rightarrow> log_entry list \<times> (error + pyval)" where
  "map_to_ocsf ver event source_format =
     (if source_format = PStr ''syslog'' then ([], map_syslog_to_ocsf ver event)
      else if source_format = PStr ''cef'' then ([], map_cef_to_ocsf ver event)
      else if source_format = PStr ''leef'' then ([], map_leef_to_ocsf ver event)
      else ([(WARNING, ''Unsupported source format'')], Inr event))"

section \<open>Format detection (src/pipelines/ingest.py)\<close>

text \<open>\<open>any(k in element for k in ks)\<close>.\<close>

definition any_key :: "pydict \<Rightarrow> string list \<Rightarrow> bool" where
  "any_key d ks = list_ex (has_key d) ks"

text \<open>
  \<open>DetectSourceFormat.process\<close>: yields one pair of the element and the detected format.
  Nothing in its body raises.
\<close>

definition detect_format :: "pyval \<Rightarrow> string" where
  "detect_format element =
     (case element of
        PDict d \<Rightarrow>
          (if has_key d ''class_uid'' \<and> has_key d ''category_uid'' then ''ocsf''
           else if any_key d [''deviceVendor'', ''deviceProduct'', ''deviceVersion''] then ''cef''
           else if any_key d [''devname'', ''devtime'', ''devtype''] then ''leef''
           else if any_key d [''facility'', ''severity'', ''timestamp'', ''hostname'']
             then ''syslog''
           else ''unknown'')
      | _ \<Rightarrow> ''unknown'')"

definition DetectSourceFormat_process :: "pyval \<Rightarrow> (pyval \<times> pyval) list" where
  "DetectSourceFormat_process element = [(element, PStr (detect_format element))]"

section \<open>The Python runtime and the settings\<close>

text \<open>
  What the code takes from outside this repository is a parameter: the configured schema
  version, \<open>json.dumps\<close> and \<open>json.loads\<close>, \<open>bytes.decode('utf-8')\<close>, and the built-in
  \<open>hash\<close> on strings, whose result is a signed 64-bit integer and which CPython salts
  with a secret drawn at process start. A decoder or parser that raises returns \<open>None\<close>.
  They are the first fields of the record \<open>runtime\<close>, declared with the store below.
\<close>

text \<open>\<open>str\<close> on an integer: its decimal digits, with a minus sign when negative.\<close>

definition digit_char :: "nat \<Rightarrow> char" where
  "digit_char d = ''0123456789'' ! d"

fun str_nat :: "nat \<Rightarrow> string" where
  "str_nat n =
     (if n < 10 then [digit_char n]
      else str_nat (n div 10) @ [digit_char (n mod 10)])"

declare str_nat.simps [simp del]

definition str_int :: "int \<Rightarrow> string" where
  "str_int i = (if i < 0 then CHR ''-'' # str_nat (nat (- i)) else str_nat (nat i))"

text \<open>
  Cypher's \<open>toInteger\<close> on the text of a decimal integer, the only text the code passes
  to it; any other text gives null.
\<close>

definition digit_of :: "char \<Rightarrow> nat option" where
  "digit_of c =
     map_of [(CHR ''0'', 0), (CHR ''1'', 1), (CHR ''2'', 2), (CHR ''3'', 3), (CHR ''4'', 4),
             (CHR ''5'', 5), (CHR ''6'', 6), (CHR ''7'', 7), (CHR ''8'', 8), (CHR ''9'', 9)] c"

fun nat_of_digits :: "nat \<Rightarrow> string \<Rightarrow> nat option" where
  "nat_of_digits acc [] = Some acc"
| "nat_of_digits acc (c # cs) =
     (case digit_of c of None \<Rightarrow> None | Some d \<Rightarrow> nat_of_digits (10 * acc + d) cs)"

definition int_of_text :: "string \<Rightarrow> int option" where
  "int_of_text s =
     (case s of
        [] \<Rightarrow> None
      | c # cs \<Rightarrow>
          if c = CHR ''-''
          then (if cs = [] then None else map_option (\<lambda>n. - int n) (nat_of_digits 0 cs))
          else map_option int (nat_of_digits 0 s))"

definition to_integer :: "pyval \<Rightarrow> int option" where
  "to_integer v = (case v of PInt i \<Rightarrow> Some i | PStr s \<Rightarrow> int_of_text s | _ \<Rightarrow> None)"

section \<open>The graph store\<close>

text \<open>
  The store is Neo4j, reached through \<open>db.execute_query\<close> (src/utils/db.py). The model
  keeps what the statements issued by the ingestion code read and write: nodes with an
  internal id, a label and properties, and typed relationships between node ids.
\<close>

datatype relkind = GENERATED | TARGETS | PERFORMED

record node =
  nid :: nat
  nlabel :: string
  nprops :: "string \<rightharpoonup> pyval"

record rel =
  rkind :: relkind
  rstart :: nat
  rend :: nat

record graph =
  nodes :: "node list"
  rels :: "rel list"

text \<open>
  The store gives a new node an internal id that no node has. The model takes the one
  after the largest id in use.
\<close>

definition fresh_id :: "graph \<Rightarrow> nat" where
  "fresh_id g = Suc (foldr max (map nid (nodes g)) 0)"

text \<open>
  Setting properties from a map (\<open>CREATE (n {...})\<close> and \<open>SET n += $props\<close>): a key
  bound to null is removed, any other key is set. The dict's first binding of a key is
  the one that counts, as in \<open>dget\<close>.
\<close>

definition set_props :: "(string \<rightharpoonup> pyval) \<Rightarrow> pydict \<Rightarrow> (string \<rightharpoonup> pyval)" where
  "set_props m kvs =
     foldr (\<lambda>(k, v) m'. if v = PNone then m'(k := None) else m'(k \<mapsto> v)) kvs m"

text \<open>
  The two statements of the ingestion code.
  \<^item> \<open>CreateEvent params\<close> is
    \<^verbatim>\<open>CREATE (e:Event {class_uid: $class_uid, ..., metadata: $metadata}) RETURN id(e) as id\<close>.
  \<^item> \<open>MergeEntity conv kind t k props eid\<close> is
    \<^verbatim>\<open>MERGE (s:{t} {id: $k}) ON CREATE SET s += $props WITH s
      MATCH (e:Event) WHERE id(e) = $eid CREATE (s)-[:kind]->(e)\<close>
    with the relationship drawn from the event to the entity for \<open>TARGETS\<close>, and with
    \<open>toInteger($eid)\<close> for \<open>$eid\<close> when \<open>conv\<close> is set (the consumer and the direct call
    pass the event id as text). The entity type \<open>t\<close> is pasted into the statement's text
    by an f-string, unchecked.
  The only rows read are those of \<open>RETURN id(e) as id\<close>: a row binds names to integers.
\<close>

datatype stmt =
    CreateEvent pydict
  | MergeEntity bool relkind pyval pyval pydict pyval

type_synonym row = "(string \<times> int) list"

text \<open>
  The pasted type makes the statement above only when it is text that is one plain
  label: a letter or an underscore, then letters, digits and underscores. Any other type
  (other text, a number, a list, null) makes text that the store refuses or that is
  another statement; what the store does with it is the last parameter,
  \<open>pasted_statement\<close>, of which nothing is assumed.
\<close>

definition label_start :: "char \<Rightarrow> bool" where
  "label_start c = (c \<in> set ''abcdefghijklmnopqrstuvwxyzABCDEFGHIJKLMNOPQRSTUVWXYZ_'')"

definition label_char :: "char \<Rightarrow> bool" where
  "label_char c = (label_start c \<or> c \<in> set ''0123456789'')"

definition plain_label :: "string \<Rightarrow> bool" where
  "plain_label s = (case s of [] \<Rightarrow> False | c # cs \<Rightarrow> label_start c \<and> list_all label_char cs)"

definition label_of :: "pyval \<Rightarrow> string option" where
  "label_of t = (case t of PStr s \<Rightarrow> if plain_label s then Some s else None | _ \<Rightarrow> None)"

record runtime =
  schema_version :: pyval
  json_dumps :: "pyval \<Rightarrow> string"
  json_loads :: "string \<Rightarrow> pyval option"
  decode_utf8 :: "string \<Rightarrow> string option"
  py_hash :: "string \<Rightarrow> 64 word"
  pasted_statement ::
    "bool \<Rightarrow> relkind \<Rightarrow> pyval \<Rightarrow> pyval \<Rightarrow> pydict \<Rightarrow> pyval \<Rightarrow> graph
       \<Rightarrow> error + (row list \<times> graph)"

definition matches :: "string \<Rightarrow> pyval \<Rightarrow> node \<Rightarrow> bool" where
  "matches L k n = (nlabel n = L \<and> nprops n ''id'' = Some k)"

text \<open>
  The event the statement's \<open>MATCH\<close> finds: the \<open>Event\<close> node whose internal id is the
  parameter, an integer, or its \<open>toInteger\<close>.
\<close>

definition event_ref :: "bool \<Rightarrow> pyval \<Rightarrow> int option" where
  "event_ref conv eid =
     (if conv then to_integer eid else (case eid of PInt i \<Rightarrow> Some i | _ \<Rightarrow> None))"

definition is_event :: "int option \<Rightarrow> node \<Rightarrow> bool" where
  "is_event r e = (nlabel e = ''Event'' \<and> r = Some (int (nid e)))"

definition link :: "relkind \<Rightarrow> node \<Rightarrow> node \<Rightarrow> rel" where
  "link kind s e =
     (case kind of
        TARGETS \<Rightarrow> \<lparr>rkind = TARGETS, rstart = nid e, rend = nid s\<rparr>
      | _ \<Rightarrow> \<lparr>rkind = kind, rstart = nid s, rend = nid e\<rparr>)"

text \<open>
  What an accepted statement does. \<open>MERGE\<close> binds every node that has the label and the
  id; when there is none it creates one, and only then applies \<open>ON CREATE SET\<close>. The
  store refuses to merge on a null id.
\<close>

definition event_node :: "nat \<Rightarrow> pydict \<Rightarrow> node" where
  "event_node i params = \<lparr>nid = i, nlabel = ''Event'', nprops = set_props Map.empty params\<rparr>"

fun run_stmt :: "runtime \<Rightarrow> stmt \<Rightarrow> graph \<Rightarrow> error + (row list \<times> graph)" where
  "run_stmt rt (CreateEvent params) g =
     (let i = fresh_id g
      in Inr ([[(''id'', int i)]], g\<lparr>nodes := nodes g @ [event_node i params]\<rparr>))"
| "run_stmt rt (MergeEntity conv kind t k props eid) g =
     (case label_of t of
        None \<Rightarrow> pasted_statement rt conv kind t k props eid g
      | Some L \<Rightarrow>
          if k = PNone then Inl WriteFailed
          else
            let found = filter (matches L k) (nodes g);
                created =
                  (if found = []
                   then [\<lparr>nid = fresh_id g, nlabel = L,
                           nprops = set_props (Map.empty(''id'' \<mapsto> k)) props\<rparr>]
                   else []);
                ns = nodes g @ created;
                es = filter (is_event (event_ref conv eid)) ns
            in Inr ([], \<lparr>nodes = ns,
                 rels = rels g @ concat (map (\<lambda>s. map (link kind s) es) (found @ created))\<rparr>))"


text \<open>
  The statements the ingestion code makes from plain types: a \<open>CREATE\<close> whose parameters
  have no \<open>id\<close>, and a \<open>MERGE\<close> whose type is a plain label and whose properties have
  no \<open>id\<close>. A property of graphs is stable when every such statement the store runs
  keeps it.
\<close>

definition plain_stmt :: "stmt \<Rightarrow> bool" where
  "plain_stmt q =
     (case q of
        CreateEvent params \<Rightarrow> map_of params ''id'' = None
      | MergeEntity conv kind t k props eid \<Rightarrow>
          label_of t \<noteq> None \<and> map_of props ''id'' = None)"

definition stable :: "(graph \<Rightarrow> bool) \<Rightarrow> bool" where
  "stable P =
     (\<forall>rt q g rows g'. plain_stmt q \<and> run_stmt rt q g = Inr (rows, g') \<and> P g \<longrightarrow> P g')"

text \<open>
  The world a call runs in: the store, the log, whether the connection object \<open>db\<close> holds
  a driver, and what is going to happen at the coming attempts to connect and the coming
  runs of a session, one entry an attempt.
  \<^item> \<open>connects\<close>: \<open>Some (e, d)\<close> when \<open>_connect\<close> raises \<open>e\<close>, having set the driver or
    not (\<open>d\<close>); \<open>None\<close> or no entry when it connects.
  \<^item> \<open>faults\<close>: \<open>Some e\<close> when \<open>session.run\<close> raises \<open>e\<close> whatever the statement (the
    connection is lost, the store rejects the write); \<open>None\<close> or no entry when the
    statement is run.
\<close>

record world =
  store :: graph
  logged :: "log_entry list"
  driver :: bool
  connects :: "(error \<times> bool) option list"
  faults :: "error option list"

text \<open>The next call of \<open>db.execute_query\<close> will get its statement run.\<close>

definition accepts_next :: "world \<Rightarrow> bool" where
  "accepts_next w =
     ((driver w \<or> (case connects w of Some x # _ \<Rightarrow> False | _ \<Rightarrow> True))
      \<and> (case faults w of Some e # _ \<Rightarrow> False | _ \<Rightarrow> True))"

text \<open>An empty store and log, the driver set as \<open>Neo4jConnection()\<close> leaves it at import.\<close>

definition empty_world :: world where
  "empty_world =
     \<lparr>store = \<lparr>nodes = [], rels = []\<rparr>, logged = [], driver = True, connects = [],
      faults = []\<rparr>"

definition say :: "level \<Rightarrow> string \<Rightarrow> world \<Rightarrow> world" where
  "say lv msg w = w\<lparr>logged := logged w @ [(lv, msg)]\<rparr>"

text \<open>Running the rest of a \<open>try\<close> body after a step that may have raised.\<close>

definition and_then ::
  "(error + 'a) \<times> world \<Rightarrow> ('a \<Rightarrow> world \<Rightarrow> (error + 'b) \<times> world) \<Rightarrow> (error + 'b) \<times> world" where
  "and_then r f = (case r of (Inl e, w) \<Rightarrow> (Inl e, w) | (Inr v, w) \<Rightarrow> f v w)"

text \<open>
  \<open>Neo4jConnection._connect\<close>: it logs that it connects, makes the driver, tests it and
  logs the success; when a step raises it logs the failure and raises again.
\<close>

definition connect :: "world \<Rightarrow> (error + unit) \<times> world" where
  "connect w =
     (let w1 = say INFO ''Connecting to Neo4j'' (w\<lparr>connects := tl (connects w)\<rparr>) in
      case connects w of
        Some (e, d) # _ \<Rightarrow> (Inl e, say ERROR ''Failed to connect to Neo4j'' (w1\<lparr>driver := d\<rparr>))
      | _ \<Rightarrow>
          (Inr (), say INFO ''Successfully connected to Neo4j database'' (w1\<lparr>driver := True\<rparr>)))"

text \<open>
  \<open>Neo4jConnection.execute_query\<close>: it connects first when there is no driver, outside
  its \<open>try\<close>; a statement that raises is logged by the three records of the except
  clause and raised again.
\<close>

definition session_run :: "runtime \<Rightarrow> stmt \<Rightarrow> world \<Rightarrow> (error + row list) \<times> world" where
  "session_run rt q w =
     (let w' = w\<lparr>faults := tl (faults w)\<rparr> in
      case (case faults w of Some e # _ \<Rightarrow> Inl e | _ \<Rightarrow> run_stmt rt q (store w)) of
        Inl e \<Rightarrow>
          (Inl e,
           w'\<lparr>logged := logged w @
              [(ERROR, ''Query execution failed''), (ERROR, ''Query''), (ERROR, ''Parameters'')]\<rparr>)
      | Inr (rows, g) \<Rightarrow> (Inr rows, w'\<lparr>store := g\<rparr>))"

definition execute_query :: "runtime \<Rightarrow> stmt \<Rightarrow> world \<Rightarrow> (error + row list) \<times> world" where
  "execute_query rt q w =
     and_then (if driver w then (Inr (), w) else connect w) (\<lambda>_ w0. session_run rt q w0)"

section \<open>Writing an entity\<close>

text \<open>
  The identity key of a fragment, \<open>src.get('id', str(hash(json.dumps(src))))\<close>, and the
  properties stored with it, \<open>{k: v for k, v in src.items() if k not in ['id', 'type']}\<close>.
\<close>

definition identity_key :: "runtime \<Rightarrow> pydict \<Rightarrow> pyval" where
  "identity_key rt d =
     dget d ''id'' (PStr (str_int (sint (py_hash rt (json_dumps rt (PDict d))))))"

definition entity_props :: "pydict \<Rightarrow> pydict" where
  "entity_props d = filter (\<lambda>(k, v). k \<noteq> ''id'' \<and> k \<noteq> ''type'') d"

text \<open>
  The block that \<open>KafkaConsumer.process_event\<close>, \<open>create_event\<close> and
  \<open>StoreInGraph._process_entities\<close> each repeat for the fragments they handle, the same
  but for the relationship and the default type. \<open>write_entity\<close> is the block for a
  fragment; \<open>entity_step\<close> puts it under its guard \<open>if key in event\<close>. A fragment
  that is not a dict has no \<open>get\<close>: \<open>AttributeError\<close>.
\<close>

definition write_entity ::
  "runtime \<Rightarrow> bool \<Rightarrow> relkind \<Rightarrow> string \<Rightarrow> pyval \<Rightarrow> pyval \<Rightarrow> world
     \<Rightarrow> (error + unit) \<times> world" where
  "write_entity rt conv kind dflt frag event_id w =
     (case frag of
        PDict d \<Rightarrow>
          and_then
            (execute_query rt
               (MergeEntity conv kind (dget d ''type'' (PStr dflt)) (identity_key rt d)
                  (entity_props d) event_id) w)
            (\<lambda>rows w'. (Inr (), w'))
      | _ \<Rightarrow> (Inl AttributeError, w))"

definition entity_step ::
  "runtime \<Rightarrow> bool \<Rightarrow> relkind \<Rightarrow> string \<Rightarrow> string \<Rightarrow> pydict \<Rightarrow> pyval \<Rightarrow> world
     \<Rightarrow> (error + unit) \<times> world" where
  "entity_step rt conv kind dflt key event event_id w =
     (case map_of event key of
        None \<Rightarrow> (Inr (), w)
      | Some frag \<Rightarrow> write_entity rt conv kind dflt frag event_id w)"

text \<open>
  The fragments of an event that the blocks for \<open>keys\<close> (each with its default type)
  would write all have a type that is a plain label. A fragment that is not a dict is
  written by no statement.
\<close>

definition plain_fragment :: "string \<Rightarrow> pyval \<Rightarrow> bool" where
  "plain_fragment dflt frag =
     (case frag of PDict d \<Rightarrow> label_of (dget d ''type'' (PStr dflt)) \<noteq> None | _ \<Rightarrow> True)"

definition plain_types :: "(string \<times> string) list \<Rightarrow> pydict \<Rightarrow> bool" where
  "plain_types keys event =
     list_all (\<lambda>(key, dflt).
        case map_of event key of None \<Rightarrow> True | Some frag \<Rightarrow> plain_fragment dflt frag) keys"

definition consumer_keys :: "(string \<times> string) list" where
  "consumer_keys = [(''src'', ''Unknown''), (''dst'', ''Unknown'')]"

definition pipeline_keys :: "(string \<times> string) list" where
  "pipeline_keys = [(''src'', ''Unknown''), (''dst'', ''Unknown''), (''principal'', ''User'')]"

section \<open>The queue consumer (src/kafka/consumer.py)\<close>

text \<open>
  The first step of \<open>KafkaConsumer.process_event\<close> and of \<open>create_event\<close>: an event
  declared \<open>ocsf\<close> is taken as it is, any other goes through \<open>map_to_ocsf\<close>.
\<close>

definition to_ocsf :: "runtime \<Rightarrow> pyval \<Rightarrow> pyval \<Rightarrow> log_entry list \<times> (error + pyval)" where
  "to_ocsf rt event_data source_format =
     (if source_format \<noteq> PStr ''ocsf''
      then map_to_ocsf (schema_version rt) event_data source_format
      else ([], Inr event_data))"

text \<open>
  The parameters of the event node as \<open>KafkaConsumer.process_event\<close> and \<open>create_event\<close>
  build them.
\<close>

definition event_params :: "runtime \<Rightarrow> pydict \<Rightarrow> pydict" where
  "event_params rt ocsf_event =
     [(''class_uid'', dget ocsf_event ''class_uid'' (PStr ''unknown'')),
      (''category_uid'', dget ocsf_event ''category_uid'' (PStr ''unknown'')),
      (''time'', dget ocsf_event ''time'' (PStr '''')),
      (''severity'', dget ocsf_event ''severity'' (PInt 0)),
      (''message'', dget ocsf_event ''message'' (PStr '''')),
      (''metadata'', PStr (json_dumps rt (dget ocsf_event ''metadata'' (PDict []))))]"

text \<open>
  The body of the \<open>try\<close> of \<open>KafkaConsumer.process_event\<close>. The event id is kept as
  \<open>str(result[0]["id"])\<close> and the statements take its \<open>toInteger\<close>.
\<close>

definition process_event_try :: "runtime \<Rightarrow> pyval \<Rightarrow> world \<Rightarrow> (error + unit) \<times> world" where
  "process_event_try rt event w =
     (case event of
        PDict m \<Rightarrow>
          (let event_data = dget m ''event'' (PDict []);
               source_format = dget m ''source_format'' (PStr ''unknown'');
               mapped = to_ocsf rt event_data source_format;
               w1 = w\<lparr>logged := logged w @ fst mapped\<rparr>
           in case snd mapped of
                Inl e \<Rightarrow> (Inl e, w1)
              | Inr (PDict ocsf_event) \<Rightarrow>
                  and_then (execute_query rt (CreateEvent (event_params rt ocsf_event)) w1)
                    (\<lambda>result w2.
                       case result of
                         [] \<Rightarrow> (Inr (), say ERROR ''Failed to create event in database'' w2)
                       | row # _ \<Rightarrow>
                           (case map_of row ''id'' of
                              None \<Rightarrow> (Inl KeyError, w2)
                            | Some i \<Rightarrow>
                                and_then
                                  (entity_step rt True GENERATED ''Unknown'' ''src'' ocsf_event
                                     (PStr (str_int i)) w2)
                                  (\<lambda>_ w3.
                                     and_then
                                       (entity_step rt True TARGETS ''Unknown'' ''dst''
                                          ocsf_event (PStr (str_int i)) w3)
                                       (\<lambda>_ w4.
                                          (Inr (),
                                           say INFO ''Successfully processed event with ID''
                                             w4)))))
              | Inr _ \<Rightarrow> (Inl AttributeError, w1))
      | _ \<Rightarrow> (Inl AttributeError, w))"

definition process_event :: "runtime \<Rightarrow> pyval \<Rightarrow> world \<Rightarrow> world" where
  "process_event rt event w =
     (case process_event_try rt event w of
        (Inl e, w') \<Rightarrow> say ERROR ''Failed to process event'' w'
      | (Inr _, w') \<Rightarrow> w')"

text \<open>
  \<open>KafkaConsumer.start\<close> with the default \<open>process_func\<close>: what the loop does with one
  polled message, and the loop over the messages polled until it is stopped. A record's
  value is its payload, or \<open>None\<close>, which has no \<open>decode\<close>.
\<close>

datatype message = PartitionEOF | KafkaFailure | Record "string option"

definition consume_message :: "runtime \<Rightarrow> message \<Rightarrow> world \<Rightarrow> world" where
  "consume_message rt msg w =
     (case msg of
        PartitionEOF \<Rightarrow> w
      | KafkaFailure \<Rightarrow> say ERROR ''Kafka error'' w
      | Record payload \<Rightarrow>
          (case (case payload of
                   None \<Rightarrow> (Inl AttributeError, w)
                 | Some b \<Rightarrow>
                     (case decode_utf8 rt b of
                        None \<Rightarrow> (Inl UnicodeDecodeError, w)
                      | Some v \<Rightarrow>
                          (case json_loads rt v of
                             None \<Rightarrow> (Inl JSONDecodeError, w)
                           | Some event \<Rightarrow> (Inr (), process_event rt event w)))) of
             (Inl e, w') \<Rightarrow> say ERROR ''Failed to process message'' w'
           | (Inr _, w') \<Rightarrow> w'))"

definition start :: "runtime \<Rightarrow> message list \<Rightarrow> world \<Rightarrow> world" where
  "start rt msgs w = fold (consume_message rt) msgs w"

section \<open>The direct call (src/api/main.py)\<close>

text \<open>
  \<open>create_event\<close> where it writes to the store itself (\<open>settings.use_kafka\<close> off, or no
  producer). The answer is the event id, as text, and the event; every exception is
  logged and raised again as \<open>HTTPException\<close>.
\<close>

definition create_event_try ::
  "runtime \<Rightarrow> pydict \<Rightarrow> string \<Rightarrow> world \<Rightarrow> (error + pyval \<times> pyval) \<times> world" where
  "create_event_try rt event source_format w =
     (let mapped = to_ocsf rt (PDict event) (PStr source_format);
          w1 = w\<lparr>logged := logged w @ fst mapped\<rparr>
      in case snd mapped of
           Inl e \<Rightarrow> (Inl e, w1)
         | Inr (PDict ocsf_event) \<Rightarrow>
             and_then (execute_query rt (CreateEvent (event_params rt ocsf_event)) w1)
               (\<lambda>result w2.
                  case result of
                    [] \<Rightarrow> (Inl HTTPException, w2)
                  | row # _ \<Rightarrow>
                      (case map_of row ''id'' of
                         None \<Rightarrow> (Inl KeyError, w2)
                       | Some i \<Rightarrow>
                           and_then
                             (entity_step rt True GENERATED ''Unknown'' ''src'' ocsf_event
                                (PStr (str_int i)) w2)
                             (\<lambda>_ w3.
                                and_then
                                  (entity_step rt True TARGETS ''Unknown'' ''dst'' ocsf_event
                                     (PStr (str_int i)) w3)
                                  (\<lambda>_ w4.
                                     (Inr (PStr (str_int i), PDict ocsf_event), w4)))))
         | Inr _ \<Rightarrow> (Inl AttributeError, w1))"

definition create_event ::
  "runtime \<Rightarrow> pydict \<Rightarrow> string \<Rightarrow> world \<Rightarrow> (error + pyval \<times> pyval) \<times> world" where
  "create_event rt event source_format w =
     (case create_event_try rt event source_format w of
        (Inl e, w') \<Rightarrow> (Inl HTTPException, say ERROR ''Failed to create event'' w')
      | (Inr r, w') \<Rightarrow> (Inr r, w'))"

section \<open>The pipeline (src/pipelines/ingest.py)\<close>

text \<open>
  \<open>ParseEvent.process\<close>: the element is bytes, or already a Python value (a string is
  parsed, anything else passes). It yields the parsed event, or logs and yields nothing.
\<close>

datatype raw = Bytes string | Value pyval

definition ParseEvent_process :: "runtime \<Rightarrow> raw \<Rightarrow> world \<Rightarrow> pyval list \<times> world" where
  "ParseEvent_process rt element w =
     (case (case element of
              Bytes b \<Rightarrow>
                (case decode_utf8 rt b of
                   None \<Rightarrow> Inl UnicodeDecodeError
                 | Some s \<Rightarrow>
                     (case json_loads rt s of None \<Rightarrow> Inl JSONDecodeError | Some v \<Rightarrow> Inr v))
            | Value (PStr s) \<Rightarrow>
                (case json_loads rt s of None \<Rightarrow> Inl JSONDecodeError | Some v \<Rightarrow> Inr v)
            | Value v \<Rightarrow> Inr v) of
        Inl e \<Rightarrow> ([], say ERROR ''Failed to parse event'' w)
      | Inr event \<Rightarrow> ([event], w))"

text \<open>\<open>MapToOCSF.process\<close> on a pair of an event and its format.\<close>

definition MapToOCSF_process ::
  "runtime \<Rightarrow> pyval \<times> pyval \<Rightarrow> world \<Rightarrow> pyval list \<times> world" where
  "MapToOCSF_process rt element w =
     (case element of
        (event, source_format) \<Rightarrow>
          if source_format = PStr ''ocsf'' then ([event], w)
          else
            (case map_to_ocsf (schema_version rt) event source_format of
               (lg, Inl e) \<Rightarrow>
                 ([], say ERROR ''Failed to map event to OCSF'' (w\<lparr>logged := logged w @ lg\<rparr>))
             | (lg, Inr ocsf_event) \<Rightarrow> ([ocsf_event], w\<lparr>logged := logged w @ lg\<rparr>)))"

text \<open>
  \<open>StoreInGraph._process_entities\<close>: the three blocks in one \<open>try\<close>, whose except
  clause logs.
\<close>

definition process_entities :: "runtime \<Rightarrow> pydict \<Rightarrow> pyval \<Rightarrow> world \<Rightarrow> world" where
  "process_entities rt event event_id w =
     (case and_then (entity_step rt False GENERATED ''Unknown'' ''src'' event event_id w)
             (\<lambda>_ w1.
                and_then (entity_step rt False TARGETS ''Unknown'' ''dst'' event event_id w1)
                  (\<lambda>_ w2.
                     entity_step rt False PERFORMED ''User'' ''principal'' event event_id w2)) of
        (Inl e, w') \<Rightarrow> say ERROR ''Failed to process entities for event'' w'
      | (Inr _, w') \<Rightarrow> w')"

text \<open>The parameters of the event node as \<open>StoreInGraph.process\<close> builds them.\<close>

definition StoreInGraph_params :: "runtime \<Rightarrow> pydict \<Rightarrow> pydict" where
  "StoreInGraph_params rt element =
     [(''class_uid'', dget element ''class_uid'' PNone),
      (''category_uid'', dget element ''category_uid'' PNone),
      (''time'', dget element ''time'' PNone),
      (''severity'', dget element ''severity'' (PInt 0)),
      (''message'', dget element ''message'' (PStr '''')),
      (''metadata'', PStr (json_dumps rt (dget element ''metadata'' (PDict []))))]"

definition StoreInGraph_try ::
  "runtime \<Rightarrow> pyval \<Rightarrow> world \<Rightarrow> (error + pyval list) \<times> world" where
  "StoreInGraph_try rt element w =
     (case element of
        PDict el \<Rightarrow>
          and_then (execute_query rt (CreateEvent (StoreInGraph_params rt el)) w)
            (\<lambda>result w1.
               case result of
                 [] \<Rightarrow> (Inr [], say ERROR ''Failed to store event in graph database'' w1)
               | row # _ \<Rightarrow>
                   (case map_of row ''id'' of
                      None \<Rightarrow> (Inl KeyError, w1)
                    | Some i \<Rightarrow>
                        (let event_id = PInt i;
                             el' = dset el ''_id'' event_id;
                             w2 = say INFO ''Stored event in graph database with ID'' w1
                         in (Inr [PDict el'], process_entities rt el' event_id w2))))
      | _ \<Rightarrow> (Inl AttributeError, w))"

definition StoreInGraph_process :: "runtime \<Rightarrow> pyval \<Rightarrow> world \<Rightarrow> pyval list \<times> world" where
  "StoreInGraph_process rt element w =
     (case StoreInGraph_try rt element w of
        (Inl e, w') \<Rightarrow> ([], say ERROR ''Failed to store event in graph database'' w')
      | (Inr out, w') \<Rightarrow> (out, w'))"

text \<open>
  Running a stage over what the stage before it yielded, and the four nested loops of
  \<open>run_standalone\<close> on the value of one polled message.
\<close>

fun for_each :: "('a \<Rightarrow> world \<Rightarrow> 'b list \<times> world) \<Rightarrow> 'a list \<Rightarrow> world \<Rightarrow> 'b list \<times> world" where
  "for_each f [] w = ([], w)"
| "for_each f (x # xs) w =
     (case f x w of (ys, w1) \<Rightarrow> (case for_each f xs w1 of (zs, w2) \<Rightarrow> (ys @ zs, w2)))"

definition standalone_message :: "runtime \<Rightarrow> raw \<Rightarrow> world \<Rightarrow> world" where
  "standalone_message rt element w =
     (case ParseEvent_process rt element w of
        (parsed, w1) \<Rightarrow>
          (case for_each (\<lambda>p w'. (DetectSourceFormat_process p, w')) parsed w1 of
             (detected, w2) \<Rightarrow>
               (case for_each (MapToOCSF_process rt) detected w2 of
                  (mapped, w3) \<Rightarrow>
                    (case for_each (StoreInGraph_process rt) mapped w3 of
                       (stored, w4) \<Rightarrow>
                         fold (\<lambda>s. say INFO ''Successfully processed event'') stored w4))))"

text \<open>
  The fragments an ingestion path would write for an event all have plain types: for the
  consumer and the direct call the source and the destination of the mapped event, for
  the pipeline the source, the destination and the principal of the element. An event
  that reaches no entity write has nothing to check.
\<close>

definition consumer_event_plain :: "runtime \<Rightarrow> pyval \<Rightarrow> bool" where
  "consumer_event_plain rt event =
     (case event of
        PDict m \<Rightarrow>
          (case snd (to_ocsf rt (dget m ''event'' (PDict []))
                      (dget m ''source_format'' (PStr ''unknown''))) of
             Inr (PDict ocsf_event) \<Rightarrow> plain_types consumer_keys ocsf_event
           | _ \<Rightarrow> True)
      | _ \<Rightarrow> True)"

definition api_event_plain :: "runtime \<Rightarrow> pydict \<Rightarrow> string \<Rightarrow> bool" where
  "api_event_plain rt event source_format =
     (case snd (to_ocsf rt (PDict event) (PStr source_format)) of
        Inr (PDict ocsf_event) \<Rightarrow> plain_types consumer_keys ocsf_event
      | _ \<Rightarrow> True)"

definition pipeline_event_plain :: "pyval \<Rightarrow> bool" where
  "pipeline_event_plain element =
     (case element of PDict el \<Rightarrow> plain_types pipeline_keys el | _ \<Rightarrow> True)"

section \<open>Severity and class of mapped events\<close>

lemma severity_table:
  "map_of syslog_to_ocsf n =
     (if n = 0 then Some 10 else if n = 1 then Some 9 else if n = 2 then Some 8
      else if n = 3 then Some 7 else if n = 4 then Some 6 else if n = 5 then Some 5
      else if n = 6 then Some 4 else if n = 7 then Some 3 else None)"
  by (simp add: syslog_to_ocsf_def)

text \<open>
  C7. The severity lookup sends the integers 0, ..., 7 to 10, 9, 8, 7, 6, 5, 4, 3 and
  every other integer to 5; and the severity of a mapped syslog event is the lookup's
  result on the raw event's \<open>severity\<close> field (on 0 when the field is absent).
\<close>

theorem syslog_severity_remap:
  "map_syslog_severity (PInt n) =
     Inr (PInt (if n = 0 then 10 else if n = 1 then 9 else if n = 2 then 8
                else if n = 3 then 7 else if n = 4 then 6 else if n = 5 then 5
                else if n = 6 then 4 else if n = 7 then 3 else 5))
   \<and> (case map_syslog_severity (dget d ''severity'' (PInt 0)) of
        Inr sev \<Rightarrow>
          (\<exists>ev. snd (map_to_ocsf ver (PDict d) (PStr ''syslog'')) = Inr (PDict ev)
             \<and> map_of ev ''severity'' = Some sev)
      | Inl e \<Rightarrow> snd (map_to_ocsf ver (PDict d) (PStr ''syslog'')) = Inl e)"
  by (simp add: map_syslog_severity_def severity_table map_to_ocsf_def
      map_syslog_to_ocsf_def split: sum.split pyval.split)

text \<open>
  C8. A dict that has both \<open>class_uid\<close> and \<open>category_uid\<close> is detected as \<open>ocsf\<close>,
  whatever other keys it has, the CEF ones included.
\<close>

theorem detect_ocsf_first:
  assumes "has_key d ''class_uid''" and "has_key d ''category_uid''"
  shows "DetectSourceFormat_process (PDict d) = [(PDict d, PStr ''ocsf'')]"
  using assms by (simp add: DetectSourceFormat_process_def detect_format_def)

theorem detect_ocsf_first_witness:
  "has_key [(''class_uid'', PStr ''0001''), (''category_uid'', PStr ''0002''),
            (''deviceVendor'', PStr ''Acme''), (''deviceProduct'', PStr ''FW'')] ''class_uid''
   \<and> has_key [(''class_uid'', PStr ''0001''), (''category_uid'', PStr ''0002''),
            (''deviceVendor'', PStr ''Acme''), (''deviceProduct'', PStr ''FW'')] ''category_uid''
   \<and> any_key [(''class_uid'', PStr ''0001''), (''category_uid'', PStr ''0002''),
            (''deviceVendor'', PStr ''Acme''), (''deviceProduct'', PStr ''FW'')]
        [''deviceVendor'', ''deviceProduct'', ''deviceVersion'']
   \<and> DetectSourceFormat_process
        (PDict [(''class_uid'', PStr ''0001''), (''category_uid'', PStr ''0002''),
                (''deviceVendor'', PStr ''Acme''), (''deviceProduct'', PStr ''FW'')])
       = [(PDict [(''class_uid'', PStr ''0001''), (''category_uid'', PStr ''0002''),
                (''deviceVendor'', PStr ''Acme''), (''deviceProduct'', PStr ''FW'')],
           PStr ''ocsf'')]"
proof -
  let ?d = "[(''class_uid'', PStr ''0001''), (''category_uid'', PStr ''0002''),
            (''deviceVendor'', PStr ''Acme''), (''deviceProduct'', PStr ''FW'')]"
  have a: "has_key ?d ''class_uid''" by (simp add: has_key_def)
  have b: "has_key ?d ''category_uid''" by (simp add: has_key_def)
  have c: "any_key ?d [''deviceVendor'', ''deviceProduct'', ''deviceVersion'']"
    by (simp add: any_key_def has_key_def)
  from a b c detect_ocsf_first [OF a b] show ?thesis by simp
qed

text \<open>
  C9. The CEF and the LEEF mapper put the raw event's \<open>severity\<close> into the mapped event
  as it is (0 when the raw event has none), and both set \<open>class_uid\<close> to \<open>0001\<close> and
  \<open>category_uid\<close> to \<open>0002\<close> whatever the raw event holds.
\<close>

theorem cef_leef_severity_verbatim:
  "(\<exists>ev. map_cef_to_ocsf ver (PDict d) = Inr (PDict ev)
      \<and> map_of ev ''severity'' = Some (dget d ''severity'' (PInt 0))
      \<and> map_of ev ''class_uid'' = Some (PStr ''0001'')
      \<and> map_of ev ''category_uid'' = Some (PStr ''0002''))
   \<and> (\<exists>ev. map_leef_to_ocsf ver (PDict d) = Inr (PDict ev)
      \<and> map_of ev ''severity'' = Some (dget d ''severity'' (PInt 0))
      \<and> map_of ev ''class_uid'' = Some (PStr ''0001'')
      \<and> map_of ev ''category_uid'' = Some (PStr ''0002''))"
  by (simp add: map_cef_to_ocsf_def map_leef_to_ocsf_def)

section \<open>Facts about the store and the ingestion paths\<close>

lemma store_say: "store (say lv msg w) = store w"
  by (simp add: say_def)

lemma and_then_Inr: "and_then (Inr v, w) f = f v w"
  by (simp add: and_then_def)


lemma connect_store: "store (snd (connect w)) = store w"
  by (simp add: connect_def say_def Let_def split: list.split option.split prod.split)

lemma session_run_Inr:
  "session_run rt q w = (Inr rows, w') \<Longrightarrow> run_stmt rt q (store w) = Inr (rows, store w')"
  by (auto simp: session_run_def Let_def split: sum.splits list.splits option.splits)

lemma session_run_Inl: "session_run rt q w = (Inl e, w') \<Longrightarrow> store w' = store w"
  by (auto simp: session_run_def Let_def split: sum.splits list.splits option.splits)

lemma execute_query_Inr:
  assumes "execute_query rt q w = (Inr rows, w')"
  shows "run_stmt rt q (store w) = Inr (rows, store w')"
proof (cases "driver w")
  case True
  with assms session_run_Inr show ?thesis by (simp add: execute_query_def and_then_Inr)
next
  case False
  obtain c w0 where c: "connect w = (c, w0)" by (cases "connect w")
  with connect_store [of w] have s: "store w0 = store w" by simp
  from assms False c have "c = Inr ()" and "session_run rt q w0 = (Inr rows, w')"
    by (cases c; simp add: execute_query_def and_then_def)+
  with session_run_Inr [of rt q w0 rows w'] s show ?thesis by simp
qed

lemma execute_query_Inl:
  assumes "execute_query rt q w = (Inl e, w')"
  shows "store w' = store w"
proof (cases "driver w")
  case True
  with assms session_run_Inl show ?thesis by (simp add: execute_query_def and_then_Inr)
next
  case False
  obtain c w0 where c: "connect w = (c, w0)" by (cases "connect w")
  with connect_store [of w] have s: "store w0 = store w" by simp
  show ?thesis
  proof (cases c)
    case (Inl e')
    with assms False c s show ?thesis by (simp add: execute_query_def and_then_def)
  next
    case (Inr u)
    with assms False c have "session_run rt q w0 = (Inl e, w')"
      by (simp add: execute_query_def and_then_def)
    with session_run_Inl [of rt q w0 e w'] s show ?thesis by simp
  qed
qed

lemma execute_query_pres:
  assumes "stable P" and "plain_stmt q" and "P (store w)"
  shows "P (store (snd (execute_query rt q w)))"
proof (cases "execute_query rt q w")
  case (Pair r w')
  show ?thesis
  proof (cases r)
    case (Inl e)
    with Pair execute_query_Inl [of rt q w e w'] assms(3) show ?thesis by simp
  next
    case (Inr rows)
    with Pair execute_query_Inr [of rt q w rows w'] assms show ?thesis
      unfolding stable_def by (metis snd_conv)
  qed
qed

lemma and_then_pres:
  assumes "P (store (snd r))"
    and "\<And>v w'. P (store w') \<Longrightarrow> P (store (snd (f v w')))"
  shows "P (store (snd (and_then r f)))"
proof (cases r)
  case (Pair x w1)
  with assms show ?thesis by (cases x) (auto simp: and_then_def)
qed

lemma entity_props_id: "map_of (entity_props d) ''id'' = None"
  by (induction d) (auto simp: entity_props_def)

lemma entity_props_type: "map_of (entity_props d) ''type'' = None"
  by (induction d) (auto simp: entity_props_def)

lemma entity_props_other:
  "x \<noteq> ''id'' \<Longrightarrow> x \<noteq> ''type'' \<Longrightarrow> map_of (entity_props d) x = map_of d x"
  by (induction d) (auto simp: entity_props_def)

lemma write_entity_pres:
  assumes "stable P" and "plain_fragment dflt frag" and "P (store w)"
  shows "P (store (snd (write_entity rt conv kind dflt frag eid w)))"
proof (cases frag)
  case (PDict d)
  with assms(2) have "plain_stmt (MergeEntity conv kind (dget d ''type'' (PStr dflt))
      (identity_key rt d) (entity_props d) eid)"
    by (simp add: plain_stmt_def plain_fragment_def entity_props_id)
  from execute_query_pres [OF assms(1) this assms(3)] PDict show ?thesis
    unfolding write_entity_def by (auto intro!: and_then_pres [of P])
qed (use assms(3) in \<open>simp_all add: write_entity_def\<close>)

lemma plain_types_key:
  "plain_types keys ev \<Longrightarrow> (key, dflt) \<in> set keys \<Longrightarrow> map_of ev key = Some frag \<Longrightarrow>
     plain_fragment dflt frag"
  by (auto simp: plain_types_def list_all_iff)

lemma entity_step_pres:
  assumes "stable P" and "plain_types keys ev" and "(key, dflt) \<in> set keys" and "P (store w)"
  shows "P (store (snd (entity_step rt conv kind dflt key ev eid w)))"
  using assms plain_types_key [OF assms(2, 3)]
  by (auto simp: entity_step_def intro!: write_entity_pres [of P] split: option.split)

lemma process_entities_pres:
  assumes "stable P" and "plain_types pipeline_keys ev" and "P (store w)"
  shows "P (store (process_entities rt ev eid w))"
proof -
  let ?r = "and_then (entity_step rt False GENERATED ''Unknown'' ''src'' ev eid w)
             (\<lambda>_ w1. and_then (entity_step rt False TARGETS ''Unknown'' ''dst'' ev eid w1)
                (\<lambda>_ w2. entity_step rt False PERFORMED ''User'' ''principal'' ev eid w2))"
  have "P (store (snd ?r))"
    by (intro and_then_pres [of P] entity_step_pres [OF assms(1, 2)] assms(3))
      (simp_all add: pipeline_keys_def)
  then show ?thesis
    by (cases ?r) (auto simp: process_entities_def store_say split: sum.split)
qed

lemma event_params_id: "map_of (event_params rt oe) ''id'' = None"
  by (simp add: event_params_def)

lemma StoreInGraph_params_id: "map_of (StoreInGraph_params rt el) ''id'' = None"
  by (simp add: StoreInGraph_params_def)

lemma map_of_dset: "map_of (dset d k v) k' = (if k' = k then Some v else map_of d k')"
  by (induction d) auto

lemma plain_types_dset:
  "plain_types pipeline_keys (dset el ''_id'' v) = plain_types pipeline_keys el"
  by (simp add: plain_types_def pipeline_keys_def map_of_dset)

lemma process_event_try_pres:
  assumes "stable P" and "consumer_event_plain rt ev" and "P (store w)"
  shows "P (store (snd (process_event_try rt ev w)))"
  using assms(2, 3) unfolding process_event_try_def Let_def consumer_event_plain_def
  by (auto simp: store_say plain_stmt_def event_params_id consumer_keys_def
      split: pyval.split sum.split list.split option.split
      intro!: and_then_pres [of P] execute_query_pres [OF assms(1)]
        entity_step_pres [OF assms(1), where keys = consumer_keys])

lemma process_event_pres:
  assumes "stable P" and "consumer_event_plain rt ev" and "P (store w)"
  shows "P (store (process_event rt ev w))"
  using process_event_try_pres [OF assms]
  by (cases "process_event_try rt ev w") (auto simp: process_event_def store_say split: sum.split)

lemma create_event_try_pres:
  assumes "stable P" and "api_event_plain rt ev fmt" and "P (store w)"
  shows "P (store (snd (create_event_try rt ev fmt w)))"
  using assms(2, 3) unfolding create_event_try_def Let_def api_event_plain_def
  by (auto simp: store_say plain_stmt_def event_params_id consumer_keys_def
      split: pyval.split sum.split list.split option.split
      intro!: and_then_pres [of P] execute_query_pres [OF assms(1)]
        entity_step_pres [OF assms(1), where keys = consumer_keys])

lemma create_event_pres:
  assumes "stable P" and "api_event_plain rt ev fmt" and "P (store w)"
  shows "P (store (snd (create_event rt ev fmt w)))"
  using create_event_try_pres [OF assms]
  by (cases "create_event_try rt ev fmt w") (auto simp: create_event_def store_say split: sum.split)

lemma StoreInGraph_try_pres:
  assumes "stable P" and "pipeline_event_plain el" and "P (store w)"
  shows "P (store (snd (StoreInGraph_try rt el w)))"
  using assms(2, 3) unfolding StoreInGraph_try_def Let_def pipeline_event_plain_def
  by (auto simp: store_say plain_stmt_def StoreInGraph_params_id plain_types_dset
      split: pyval.split sum.split list.split option.split
      intro!: and_then_pres [of P] execute_query_pres [OF assms(1)]
        process_entities_pres [OF assms(1)])

lemma StoreInGraph_process_pres:
  assumes "stable P" and "pipeline_event_plain el" and "P (store w)"
  shows "P (store (snd (StoreInGraph_process rt el w)))"
  using StoreInGraph_try_pres [OF assms, of rt]
  by (cases "StoreInGraph_try rt el w")
    (auto simp: StoreInGraph_process_def store_say split: sum.split)







lemma set_props_apply:
  "set_props m kvs x =
     (case map_of kvs x of None \<Rightarrow> m x | Some v \<Rightarrow> if v = PNone then None else Some v)"
  by (induction kvs) (auto simp: set_props_def)

lemma created_entity_props:
  "set_props (Map.empty(''id'' \<mapsto> k)) (entity_props f) x =
     (if x = ''id'' then Some k
      else if x = ''type'' then None
      else case map_of f x of
             None \<Rightarrow> None
           | Some v \<Rightarrow> if v = PNone then None else Some v)"
  by (auto simp: set_props_apply entity_props_id entity_props_type entity_props_other
      split: option.split)

lemma run_stmt_sole:
  assumes "plain_stmt q" and "run_stmt rt q g = Inr (rows, g')"
    and "filter (matches L k) (nodes g) = [n]"
  shows "filter (matches L k) (nodes g') = [n]"
proof (cases q)
  case (CreateEvent params)
  with assms show ?thesis
    by (auto simp: Let_def plain_stmt_def matches_def event_node_def set_props_apply)
next
  case (MergeEntity conv kind t k' props eid)
  with assms(1) obtain L' where L': "label_of t = Some L'" and p: "map_of props ''id'' = None"
    by (auto simp: plain_stmt_def)
  show ?thesis
  proof (cases "filter (matches L' k') (nodes g) = []")
    case False
    with assms(2, 3) MergeEntity L' show ?thesis
      by (auto simp: Let_def split: if_splits)
  next
    case True
    with assms(3) have "L' \<noteq> L \<or> k' \<noteq> k" by auto
    with True assms(2, 3) MergeEntity L' p show ?thesis
      by (auto simp: Let_def matches_def set_props_apply split: if_splits)
  qed
qed

lemma stable_sole: "stable (\<lambda>g. filter (matches L k) (nodes g) = [n])"
  unfolding stable_def by (blast intro: run_stmt_sole)

lemma merge_creates:
  assumes "filter (matches L k) (nodes g) = []" and "label_of t = Some L"
    and "run_stmt rt (MergeEntity conv kind t k props eid) g = Inr (rows, g')"
  shows "nodes g' = nodes g @ [\<lparr>nid = fresh_id g, nlabel = L,
           nprops = set_props (Map.empty(''id'' \<mapsto> k)) props\<rparr>] \<and> k \<noteq> PNone"
  using assms by (auto simp: Let_def split: if_splits)

lemma write_entity_Inr:
  assumes "write_entity rt conv kind dflt (PDict d) eid w = (Inr u, w')"
  shows "\<exists>rows. run_stmt rt (MergeEntity conv kind (dget d ''type'' (PStr dflt))
            (identity_key rt d) (entity_props d) eid) (store w) = Inr (rows, store w')"
proof -
  let ?q = "MergeEntity conv kind (dget d ''type'' (PStr dflt)) (identity_key rt d)
              (entity_props d) eid"
  obtain r w1 where q: "execute_query rt ?q w = (r, w1)" by (cases "execute_query rt ?q w")
  with assms obtain rows where "r = Inr rows" and "w1 = w'"
    by (cases r) (auto simp: write_entity_def and_then_def)
  with q execute_query_Inr show ?thesis by blast
qed

lemma first_write_creates:
  assumes "label_of (dget f ''type'' (PStr dflt)) = Some L"
    and "identity_key rt f = k"
    and "filter (matches L k) (nodes (store w)) = []"
    and "write_entity rt conv kind dflt (PDict f) eid w = (Inr (), w1)"
  shows "filter (matches L k) (nodes (store w1)) =
           [\<lparr>nid = fresh_id (store w), nlabel = L,
              nprops = set_props (Map.empty(''id'' \<mapsto> k)) (entity_props f)\<rparr>]"
proof -
  let ?n = "\<lparr>nid = fresh_id (store w), nlabel = L,
             nprops = set_props (Map.empty(''id'' \<mapsto> k)) (entity_props f)\<rparr>"
  from write_entity_Inr [OF assms(4)] assms(2) obtain rows where
    r: "run_stmt rt (MergeEntity conv kind (dget f ''type'' (PStr dflt)) k (entity_props f) eid)
          (store w) = Inr (rows, store w1)" by auto
  from merge_creates [OF assms(3, 1) r] have n: "nodes (store w1) = nodes (store w) @ [?n]"
    by simp
  have "matches L k ?n" by (simp add: matches_def set_props_apply entity_props_id)
  with n assms(3) show ?thesis by simp
qed









lemma str_int_1: "str_int 1 = ''1''"
  by (simp add: str_int_def str_nat.simps digit_char_def)

lemma str_int_3: "str_int 3 = ''3''"
  by (simp add: str_int_def str_nat.simps digit_char_def)

lemma to_integer_text_1: "to_integer (PStr ''1'') = Some 1"
  by (simp add: to_integer_def int_of_text_def digit_of_def)

lemma to_integer_text_3: "to_integer (PStr ''3'') = Some 3"
  by (simp add: to_integer_def int_of_text_def digit_of_def)

lemma hash_text_seed1: "str_int (- 5263620975991602325) = ''-5263620975991602325''"
  by (simp add: str_int_def str_nat.simps digit_char_def)

lemma hash_text_seed2: "str_int (- 5076152055682420132) = ''-5076152055682420132''"
  by (simp add: str_int_def str_nat.simps digit_char_def)

lemmas run_defs =
  process_event_def process_event_try_def to_ocsf_def event_params_def entity_step_def
  write_entity_def and_then_def execute_query_def session_run_def identity_key_def
  entity_props_def label_of_def plain_label_def label_start_def label_char_def dget_def
  say_def empty_world_def fresh_id_def set_props_def matches_def event_node_def
  accepts_next_def is_event_def event_ref_def link_def Let_def StoreInGraph_process_def
  StoreInGraph_try_def StoreInGraph_params_def process_entities_def map_to_ocsf_def
  str_int_1 str_int_3 to_integer_text_1 to_integer_text_3

section \<open>Entity identity and merging\<close>

text \<open>
  C1 (as the code has it). An entity fragment whose type is a plain label is written, the
  store accepts the write, and no node had that label and identity key before. Then
  exactly one node has them afterwards, and its properties are those of this first
  fragment (its keys but \<open>id\<close> and \<open>type\<close>, those bound to null left out) together with
  \<open>id\<close>. From then on every event handled on any path (the consumer, the direct call,
  the pipeline), by any process, with \<open>CREATE\<close>s and other entity writes in between,
  leaves that node the only one for the pair and leaves its properties as they are, also
  when the event carries a fragment of the same pair with other properties:
  \<open>ON CREATE SET\<close> does not apply on a match. This holds for events whose fragments have
  plain labels as types; any other type is pasted into another statement.
\<close>

theorem entity_merge_keeps_first_write:
  assumes type: "label_of (dget f ''type'' (PStr dflt)) = Some L"
    and key: "identity_key rt f = k"
    and new: "filter (matches L k) (nodes (store w)) = []"
    and first: "write_entity rt conv kind dflt (PDict f) eid w = (Inr (), w1)"
  shows "\<exists>n. filter (matches L k) (nodes (store w1)) = [n]
     \<and> (\<forall>x. nprops n x =
           (if x = ''id'' then Some k
                     else if x = ''type'' then None
                     else case map_of f x of
                            None \<Rightarrow> None
                          | Some v \<Rightarrow> if v = PNone then None else Some v))
     \<and> (\<forall>rt' ev d fmt w'. filter (matches L k) (nodes (store w')) = [n] \<longrightarrow>
           (consumer_event_plain rt' ev \<longrightarrow>
              filter (matches L k) (nodes (store (process_event rt' ev w'))) = [n])
         \<and> (api_event_plain rt' d fmt \<longrightarrow>
              filter (matches L k) (nodes (store (snd (create_event rt' d fmt w')))) = [n])
         \<and> (pipeline_event_plain ev \<longrightarrow>
              filter (matches L k) (nodes (store (snd (StoreInGraph_process rt' ev w')))) = [n]))"
proof -
  let ?n = "\<lparr>nid = fresh_id (store w), nlabel = L,
             nprops = set_props (Map.empty(''id'' \<mapsto> k)) (entity_props f)\<rparr>"
  note sole = stable_sole [of L k ?n]
  have 1: "filter (matches L k) (nodes (store w1)) = [?n]"
    by (rule first_write_creates [OF type key new first])
  have 2: "nprops ?n x =
           (if x = ''id'' then Some k
                     else if x = ''type'' then None
                     else case map_of f x of
                            None \<Rightarrow> None
                          | Some v \<Rightarrow> if v = PNone then None else Some v)" for x
    by (simp add: created_entity_props)
  have 3: "filter (matches L k) (nodes (store (process_event rt' ev w'))) = [?n]"
    if "filter (matches L k) (nodes (store w')) = [?n]" and "consumer_event_plain rt' ev"
    for rt' ev w'
    using process_event_pres [OF sole that(2, 1)] .
  have 4: "filter (matches L k) (nodes (store (snd (create_event rt' d fmt w')))) = [?n]"
    if "filter (matches L k) (nodes (store w')) = [?n]" and "api_event_plain rt' d fmt"
    for rt' d fmt w'
    using create_event_pres [OF sole that(2, 1)] .
  have 5: "filter (matches L k) (nodes (store (snd (StoreInGraph_process rt' ev w')))) = [?n]"
    if "filter (matches L k) (nodes (store w')) = [?n]" and "pipeline_event_plain ev"
    for rt' ev w'
    using StoreInGraph_process_pres [OF sole that(2, 1), of rt'] .
  show ?thesis
    by (rule exI [of _ ?n]) (use 1 2 3 4 5 in blast)
qed

text \<open>
  C1, at a concrete input: a \<open>Host\<close> fragment \<open>h1\<close> with \<open>os = linux\<close> written into the
  empty store, then an event handled by the consumer whose source is \<open>h1\<close> with
  \<open>os = windows\<close> and an \<open>owner\<close>.
\<close>

theorem entity_merge_keeps_first_write_witness:
  "(let rt = \<lparr>schema_version = PStr ''1.0.0'', json_dumps = (\<lambda>v. ''{}''),
               json_loads = (\<lambda>s. None), decode_utf8 = Some, py_hash = (\<lambda>s. 0),
               pasted_statement = (\<lambda>conv kind t k props eid g. Inl WriteFailed)\<rparr>;
        f = [(''id'', PStr ''h1''), (''type'', PStr ''Host''), (''os'', PStr ''linux'')];
        ev = PDict [(''source_format'', PStr ''ocsf''),
                    (''event'', PDict
                       [(''class_uid'', PStr ''0001''), (''category_uid'', PStr ''0002''),
                        (''src'', PDict [(''id'', PStr ''h1''), (''type'', PStr ''Host''),
                                         (''os'', PStr ''windows''),
                                         (''owner'', PStr ''bob'')])])];
        r = write_entity rt False GENERATED ''Unknown'' (PDict f) (PInt 1) empty_world
    in label_of (dget f ''type'' (PStr ''Unknown'')) = Some ''Host''
       \<and> identity_key rt f = PStr ''h1''
       \<and> filter (matches ''Host'' (PStr ''h1'')) (nodes (store empty_world)) = []
       \<and> fst r = Inr ()
       \<and> consumer_event_plain rt ev
       \<and> (\<exists>n. filter (matches ''Host'' (PStr ''h1'')) (nodes (store (snd r))) = [n]
             \<and> nprops n ''os'' = Some (PStr ''linux'') \<and> nprops n ''owner'' = None
             \<and> filter (matches ''Host'' (PStr ''h1''))
                  (nodes (store (process_event rt ev (snd r)))) = [n]))"
proof -
  define rt where "rt = \<lparr>schema_version = PStr ''1.0.0'', json_dumps = (\<lambda>v. ''{}''),
               json_loads = (\<lambda>s. None), decode_utf8 = Some, py_hash = (\<lambda>s. 0),
               pasted_statement = (\<lambda>conv kind t k props eid g. Inl WriteFailed)\<rparr>"
  define f where "f = [(''id'', PStr ''h1''), (''type'', PStr ''Host''), (''os'', PStr ''linux'')]"
  define ev where "ev = PDict [(''source_format'', PStr ''ocsf''),
                    (''event'', PDict
                       [(''class_uid'', PStr ''0001''), (''category_uid'', PStr ''0002''),
                        (''src'', PDict [(''id'', PStr ''h1''), (''type'', PStr ''Host''),
                                         (''os'', PStr ''windows''),
                                         (''owner'', PStr ''bob'')])])]"
  define r where "r = write_entity rt False GENERATED ''Unknown'' (PDict f) (PInt 1) empty_world"
  have t: "label_of (dget f ''type'' (PStr ''Unknown'')) = Some ''Host''"
    by (simp add: label_of_def plain_label_def label_start_def label_char_def dget_def f_def)
  have k: "identity_key rt f = PStr ''h1''" by (simp add: identity_key_def dget_def f_def)
  have e: "filter (matches ''Host'' (PStr ''h1'')) (nodes (store empty_world)) = []"
    by (simp add: empty_world_def)
  have a: "fst r = Inr ()"
    unfolding r_def
    by (simp add: write_entity_def and_then_def execute_query_def session_run_def k t
        empty_world_def Let_def)
  have p: "write_entity rt False GENERATED ''Unknown'' (PDict f) (PInt 1) empty_world = (Inr (), snd r)"
    using a by (simp add: prod_eq_iff r_def)
  have c: "consumer_event_plain rt ev"
    by (simp add: consumer_event_plain_def to_ocsf_def dget_def ev_def plain_types_def
        consumer_keys_def plain_fragment_def label_of_def plain_label_def label_start_def
        label_char_def)
  from entity_merge_keeps_first_write [OF t k e p]
  obtain n where n: "filter (matches ''Host'' (PStr ''h1'')) (nodes (store (snd r))) = [n]"
    and px: "\<And>x. nprops n x =
                    (if x = ''id'' then Some (PStr ''h1'')
                     else if x = ''type'' then None
                     else case map_of f x of
                            None \<Rightarrow> None
                          | Some v \<Rightarrow> if v = PNone then None else Some v)"
    and later: "\<And>rt' ev w'. filter (matches ''Host'' (PStr ''h1'')) (nodes (store w')) = [n] \<Longrightarrow>
        consumer_event_plain rt' ev \<Longrightarrow>
        filter (matches ''Host'' (PStr ''h1'')) (nodes (store (process_event rt' ev w'))) = [n]"
    by blast
  have "nprops n ''os'' = Some (PStr ''linux'')" by (simp add: px f_def)
  moreover have "nprops n ''owner'' = None" by (simp add: px f_def)
  moreover note later [OF n c]
  ultimately have "\<exists>n. filter (matches ''Host'' (PStr ''h1'')) (nodes (store (snd r))) = [n]
             \<and> nprops n ''os'' = Some (PStr ''linux'') \<and> nprops n ''owner'' = None
             \<and> filter (matches ''Host'' (PStr ''h1''))
                  (nodes (store (process_event rt ev (snd r)))) = [n]"
    using n by blast
  with t k e a c show ?thesis
    unfolding Let_def rt_def [symmetric] f_def [symmetric] ev_def [symmetric]
      r_def [symmetric]
    by (intro conjI) simp_all
qed

text \<open>
  C1 as stated fails: the consumer handles two events whose source fragments have the
  same type and id. The one \<open>Host\<close> node keeps \<open>os = linux\<close> and gets no \<open>owner\<close>; the
  union with the later write winning would have \<open>os = windows\<close> and \<open>owner = bob\<close>.
\<close>

theorem second_write_ignored:
  "\<forall>rt.
     map (\<lambda>n. (nprops n ''os'', nprops n ''owner''))
       (filter (matches ''Host'' (PStr ''h1''))
          (nodes (store
             (process_event rt
                (PDict [(''source_format'', PStr ''ocsf''),
                        (''event'', PDict
                           [(''class_uid'', PStr ''0001''), (''category_uid'', PStr ''0002''),
                            (''src'', PDict [(''id'', PStr ''h1''), (''type'', PStr ''Host''),
                                             (''os'', PStr ''windows''),
                                             (''owner'', PStr ''bob'')])])])
                (process_event rt
                   (PDict [(''source_format'', PStr ''ocsf''),
                           (''event'', PDict
                              [(''class_uid'', PStr ''0001''), (''category_uid'', PStr ''0002''),
                               (''src'', PDict [(''id'', PStr ''h1''), (''type'', PStr ''Host''),
                                                (''os'', PStr ''linux'')])])])
                   empty_world)))))
     = [(Some (PStr ''linux''), None)]"
  by (simp add: run_defs)

text \<open>
  C4, at the failing input. Two consumer processes handle the same event, whose source
  fragment \<open>{"type": "Host", "hostname": "web-1"}\<close> has no id. The two runtimes differ
  in the salt of \<open>hash\<close> alone: the hash values are those of CPython 3.11 started with
  \<open>PYTHONHASHSEED=1\<close> and with \<open>PYTHONHASHSEED=2\<close> on the fragment's JSON text. The
  fragment gets two identity keys and the store ends with two \<open>Host\<close> nodes for it.
\<close>

theorem salted_hash_splits_entity:
  \<open>(let frag = [(''type'', PStr ''Host''), (''hostname'', PStr ''web-1'')];
        msg = PDict [(''source_format'', PStr ''ocsf''),
                     (''event'', PDict [(''class_uid'', PStr ''0001''),
                                        (''category_uid'', PStr ''0002''),
                                        (''src'', PDict frag)])];
        dumps = (\<lambda>v. if v = PDict frag then ''{"type": "Host", "hostname": "web-1"}''
                      else ''{}'');
        rt1 = \<lparr>schema_version = PStr ''1.0.0'', json_dumps = dumps,
               json_loads = (\<lambda>s. None), decode_utf8 = Some,
               py_hash = (\<lambda>s. if s = ''{"type": "Host", "hostname": "web-1"}''
                               then 13183123097717949291 else 0),
               pasted_statement = (\<lambda>conv kind t k props eid g. Inl WriteFailed)\<rparr>;
        rt2 = rt1\<lparr>py_hash := (\<lambda>s. if s = ''{"type": "Host", "hostname": "web-1"}''
                               then 13370592018027131484 else 0)\<rparr>
    in identity_key rt1 frag = PStr ''-5263620975991602325''
       \<and> identity_key rt2 frag = PStr ''-5076152055682420132''
       \<and> map (\<lambda>n. (nlabel n, nprops n ''id'', nprops n ''hostname''))
            (nodes (store (process_event rt2 msg (process_event rt1 msg empty_world))))
          = [(''Event'', None, None),
             (''Host'', Some (PStr ''-5263620975991602325''), Some (PStr ''web-1'')),
             (''Event'', None, None),
             (''Host'', Some (PStr ''-5076152055682420132''), Some (PStr ''web-1''))])\<close>
  by (simp add: run_defs hash_text_seed1 hash_text_seed2)

section \<open>Defaults and relationships of the event write\<close>

text \<open>
  C2, at the failing input. An event \<open>{"message": "hello"}\<close> is detected as \<open>unknown\<close>
  and passes \<open>MapToOCSF\<close> unchanged; \<open>StoreInGraph.process\<close> then writes an event node
  with no \<open>class_uid\<close> and no \<open>category_uid\<close> (the parameters are \<open>None\<close>). The consumer
  and the direct call store \<open>unknown\<close> for the same event.
\<close>

theorem pipeline_stores_no_default:
  "\<forall>rt.
     DetectSourceFormat_process (PDict [(''message'', PStr ''hello'')])
       = [(PDict [(''message'', PStr ''hello'')], PStr ''unknown'')]
     \<and> fst (MapToOCSF_process rt (PDict [(''message'', PStr ''hello'')], PStr ''unknown'')
              empty_world)
       = [PDict [(''message'', PStr ''hello'')]]
     \<and> map (\<lambda>n. (nlabel n, nprops n ''class_uid'', nprops n ''category_uid''))
         (nodes (store (snd (StoreInGraph_process rt (PDict [(''message'', PStr ''hello'')])
                               empty_world))))
       = [(''Event'', None, None)]
     \<and> map (\<lambda>n. (nlabel n, nprops n ''class_uid'', nprops n ''category_uid''))
         (nodes (store (process_event rt
            (PDict [(''event'', PDict [(''message'', PStr ''hello'')])]) empty_world)))
       = [(''Event'', Some (PStr ''unknown''), Some (PStr ''unknown''))]
     \<and> map (\<lambda>n. (nlabel n, nprops n ''class_uid'', nprops n ''category_uid''))
         (nodes (store (snd (create_event rt [(''message'', PStr ''hello'')] ''unknown''
            empty_world))))
       = [(''Event'', Some (PStr ''unknown''), Some (PStr ''unknown''))]"
  by (simp add: run_defs DetectSourceFormat_process_def detect_format_def has_key_def
      any_key_def MapToOCSF_process_def create_event_def create_event_try_def)

text \<open>
  C3, at the failing input. For an event with a \<open>principal\<close> fragment the consumer and
  the direct call write the event node only, and no relationship;
  \<open>StoreInGraph.process\<close> writes the \<open>User\<close> node and its \<open>PERFORMED\<close> relationship to the
  event.
\<close>

theorem consumer_skips_principal:
  "\<forall>rt.
     (let ev = [(''class_uid'', PStr ''0001''), (''category_uid'', PStr ''0002''),
                (''principal'', PDict [(''id'', PStr ''u1''), (''type'', PStr ''User'')])]
      in map nlabel (nodes (store (process_event rt
              (PDict [(''event'', PDict ev), (''source_format'', PStr ''ocsf'')]) empty_world)))
           = [''Event'']
         \<and> rels (store (process_event rt
              (PDict [(''event'', PDict ev), (''source_format'', PStr ''ocsf'')]) empty_world))
           = []
         \<and> rels (store (snd (create_event rt ev ''ocsf'' empty_world))) = []
         \<and> map nlabel (nodes (store (snd (StoreInGraph_process rt (PDict ev) empty_world))))
           = [''Event'', ''User'']
         \<and> rels (store (snd (StoreInGraph_process rt (PDict ev) empty_world)))
           = [\<lparr>rkind = PERFORMED, rstart = 2, rend = 1\<rparr>])"
  by (simp add: run_defs create_event_def create_event_try_def)

section \<open>Failures and redelivery\<close>






text \<open>
  C10. A payload that does not decode as UTF-8, or whose text does not parse as JSON, is
  dropped: the consumer loop logs \<open>Failed to process message\<close>, the parse step of the
  pipeline logs \<open>Failed to parse event\<close> and yields nothing, and in both the loop goes
  on with the world otherwise unchanged: no call to the store is made.
\<close>

theorem unparsable_payload_dropped:
  assumes "decode_utf8 rt b = None \<or> (\<exists>s. decode_utf8 rt b = Some s \<and> json_loads rt s = None)"
  shows "consume_message rt (Record (Some b)) w = say ERROR ''Failed to process message'' w
     \<and> start rt [Record (Some b)] w = say ERROR ''Failed to process message'' w
     \<and> ParseEvent_process rt (Bytes b) w = ([], say ERROR ''Failed to parse event'' w)
     \<and> standalone_message rt (Bytes b) w = say ERROR ''Failed to parse event'' w
     \<and> store (start rt [Record (Some b)] w) = store w
     \<and> store (standalone_message rt (Bytes b) w) = store w"
  using assms
  by (auto simp: consume_message_def start_def ParseEvent_process_def standalone_message_def
      store_say)

text \<open>
  C10, at a concrete input: the payload \<open>not json\<close>.
\<close>

theorem unparsable_payload_dropped_witness:
  "(let rt = \<lparr>schema_version = PStr ''1.0.0'', json_dumps = (\<lambda>v. ''{}''),
               json_loads = (\<lambda>s. if s = ''{}'' then Some (PDict []) else None),
               decode_utf8 = Some, py_hash = (\<lambda>s. 0),
               pasted_statement = (\<lambda>conv kind t k props eid g. Inl WriteFailed)\<rparr>
    in (\<exists>s. decode_utf8 rt ''not json'' = Some s \<and> json_loads rt s = None)
       \<and> start rt [Record (Some ''not json'')] empty_world
           = say ERROR ''Failed to process message'' empty_world
       \<and> standalone_message rt (Bytes ''not json'') empty_world
           = say ERROR ''Failed to parse event'' empty_world)"
proof -
  let ?rt = "\<lparr>schema_version = PStr ''1.0.0'', json_dumps = (\<lambda>v. ''{}''),
               json_loads = (\<lambda>s. if s = ''{}'' then Some (PDict []) else None),
               decode_utf8 = Some, py_hash = (\<lambda>s. 0),
               pasted_statement = (\<lambda>conv kind t k props eid g. Inl WriteFailed)\<rparr>"
  have h: "decode_utf8 ?rt ''not json'' = None
       \<or> (\<exists>s. decode_utf8 ?rt ''not json'' = Some s \<and> json_loads ?rt s = None)"
    by simp
  from unparsable_payload_dropped [OF h, of empty_world] show ?thesis
    by (simp add: Let_def)
qed

end
